theory Spec2Isabelle
  imports Complex_Main "HOL-Library.Stream"
begin

section \<open>Python values, dictionaries and exceptions\<close>

text \<open>
  The services return Python dictionaries with string keys. A dictionary keeps its
  insertion order, so it is an association list with unique keys; item assignment
  overwrites in place or appends. Python floats are idealised as real numbers.
\<close>

datatype pyval =
    PyNone
  | PyStr string
  | PyInt int
  | PyFloat real
  | PyBool bool
  | PyList "pyval list"
  | PyDict "(string \<times> pyval) list"

type_synonym 'v pydict = "(string \<times> 'v) list"

text \<open>An exception that is a subclass of \<open>Exception\<close>: its class name and its \<open>str()\<close>.\<close>

datatype py_exception =
    PyError string string
  | HTTPException nat string "(string \<times> string) list"

text \<open>
  \<open>str(e)\<close>, as the handlers print it; of a \<open>HTTPException\<close> it is the status code and
  the detail (status codes have three digits).
\<close>

definition digit_char :: "nat \<Rightarrow> char" where
  "digit_char n = ''0123456789'' ! (n mod 10)"

definition pad2 :: "nat \<Rightarrow> string" where
  "pad2 n = [digit_char (n div 10), digit_char n]"

definition pad3 :: "nat \<Rightarrow> string" where
  "pad3 n = digit_char (n div 100) # pad2 n"

definition pad4 :: "nat \<Rightarrow> string" where
  "pad4 n = digit_char (n div 1000) # pad3 n"

definition pad6 :: "nat \<Rightarrow> string" where
  "pad6 n = digit_char (n div 100000) # digit_char (n div 10000) # pad4 n"

fun str_exc :: "py_exception \<Rightarrow> string" where
  "str_exc (PyError cls msg) = msg"
| "str_exc (HTTPException status detail headers) = pad3 status @ '': '' @ detail"

fun dict_set :: "string \<Rightarrow> 'v \<Rightarrow> 'v pydict \<Rightarrow> 'v pydict" where
  "dict_set k v [] = [(k, v)]"
| "dict_set k v (p # ps) = (if fst p = k then (k, v) # ps else p # dict_set k v ps)"

definition dict_get :: "'v pydict \<Rightarrow> string \<Rightarrow> 'v option" where
  "dict_get d k = map_of d k"

definition bind_exn :: "'e + 'a \<Rightarrow> ('a \<Rightarrow> 'e + 'b) \<Rightarrow> 'e + 'b" where
  "bind_exn m f = (case m of Inl e \<Rightarrow> Inl e | Inr x \<Rightarrow> f x)"

section \<open>Strings: \<open>lower\<close>, \<open>in\<close>, \<open>strip\<close>\<close>

text \<open>
  Texts are byte strings; \<open>lower\<close> maps the ASCII capitals to small letters and leaves
  every other character as it is, which is \<open>str.lower()\<close> on ASCII text.
\<close>

definition lower_char :: "char \<Rightarrow> char" where
  "lower_char c =
     (case map_of (zip ''ABCDEFGHIJKLMNOPQRSTUVWXYZ'' ''abcdefghijklmnopqrstuvwxyz'') c of
        None \<Rightarrow> c
      | Some d \<Rightarrow> d)"

definition lower :: "string \<Rightarrow> string" where
  "lower s = map lower_char s"

fun starts_with :: "string \<Rightarrow> string \<Rightarrow> bool" where
  "starts_with [] s = True"
| "starts_with (c # w) [] = False"
| "starts_with (c # w) (d # s) = (c = d \<and> starts_with w s)"

text \<open>\<open>str_in w s\<close> is Python's \<open>w in s\<close>: \<open>w\<close> occurs in \<open>s\<close> as a contiguous substring.\<close>

fun str_in :: "string \<Rightarrow> string \<Rightarrow> bool" where
  "str_in w [] = (w = [])"
| "str_in w (d # s) = (starts_with w (d # s) \<or> str_in w s)"

text \<open>The ASCII characters that \<open>str.strip()\<close> removes.\<close>

definition is_space :: "char \<Rightarrow> bool" where
  "is_space c =
     (c \<in> set [CHR '' '', CHR 0x09, CHR 0x0A, CHR 0x0B, CHR 0x0C, CHR 0x0D,
                 CHR 0x1C, CHR 0x1D, CHR 0x1E, CHR 0x1F])"

definition strip :: "string \<Rightarrow> string" where
  "strip s = rev (dropWhile is_space (rev (dropWhile is_space s)))"

section \<open>The text-analysis fallbacks (\<open>app/services/ai_service.py\<close>)\<close>

definition positive_words :: "string list" where
  "positive_words =
     [''good'', ''great'', ''excellent'', ''amazing'', ''wonderful'', ''fantastic'',
      ''love'', ''happy'']"

definition negative_words :: "string list" where
  "negative_words =
     [''bad'', ''terrible'', ''awful'', ''horrible'', ''hate'', ''sad'', ''angry'', ''poor'']"

text \<open>\<open>sum(1 for word in words if word in text_lower)\<close>\<close>

definition count_hits :: "string list \<Rightarrow> string \<Rightarrow> nat" where
  "count_hits words text_lower = length (filter (\<lambda>word. str_in word text_lower) words)"

definition mock_sentiment_analysis :: "string \<Rightarrow> pyval pydict" where
  "mock_sentiment_analysis text =
     (let text_lower = lower text;
          positive_score = real (count_hits positive_words text_lower) / 10;
          negative_score = real (count_hits negative_words text_lower) / 10;
          neutral_score = 1 - positive_score - negative_score;
          (sentiment, confidence) =
             (if positive_score > negative_score
                then (''positive'', min (5 / 10 + positive_score) (95 / 100))
              else if negative_score > positive_score
                then (''negative'', min (5 / 10 + negative_score) (95 / 100))
              else (''neutral'', 6 / 10))
      in [(''sentiment'', PyStr sentiment),
          (''confidence'', PyFloat confidence),
          (''scores'', PyDict
             [(''positive'', PyFloat (if sentiment = ''positive''
                                    then min (positive_score + 3 / 10) 1 else positive_score)),
              (''negative'', PyFloat (if sentiment = ''negative''
                                    then min (negative_score + 3 / 10) 1 else negative_score)),
              (''neutral'', PyFloat neutral_score)]),
          (''processing_time'', PyFloat (1 / 10))])"

definition category_keywords :: "(string \<times> string list) list" where
  "category_keywords =
     [(''Technology'', [''tech'', ''software'', ''computer'', ''ai'', ''data'', ''cloud'', ''app'']),
      (''Business'', [''business'', ''company'', ''market'', ''revenue'', ''profit'', ''investment'']),
      (''Sports'', [''sports'', ''game'', ''team'', ''player'', ''match'', ''championship'']),
      (''Entertainment'', [''movie'', ''music'', ''film'', ''show'', ''celebrity'', ''entertainment'']),
      (''Politics'', [''politics'', ''government'', ''election'', ''president'', ''policy'']),
      (''Health'', [''health'', ''medical'', ''doctor'', ''hospital'', ''disease'', ''treatment''])]"

text \<open>
  \<open>max(items, key=lambda x: x[1])\<close>: the first item whose value is maximal; a
  \<open>ValueError\<close> on no items.
\<close>

fun max_from :: "(string \<times> real) \<Rightarrow> (string \<times> real) list \<Rightarrow> (string \<times> real)" where
  "max_from best [] = best"
| "max_from best (x # xs) = max_from (if snd x > snd best then x else best) xs"

definition max_by_value :: "(string \<times> real) list \<Rightarrow> py_exception + (string \<times> real)" where
  "max_by_value items =
     (case items of
        [] \<Rightarrow> Inl (PyError ''ValueError'' ''max() arg is an empty sequence'')
      | x # xs \<Rightarrow> Inr (max_from x xs))"

definition category_score :: "string \<Rightarrow> string list \<Rightarrow> real" where
  "category_score text_lower words =
     min (real (count_hits words text_lower) / real (length words) + 1 / 10) (9 / 10)"

definition mock_text_classification :: "string \<Rightarrow> py_exception + pyval pydict" where
  "mock_text_classification text =
     (let text_lower = lower text;
          scores = fold (\<lambda>(category, words) scores.
                      dict_set category (category_score text_lower words) scores) category_keywords []
      in bind_exn (max_by_value scores) (\<lambda>best_category.
           Inr [(''category'', PyStr (fst best_category)),
                (''confidence'', PyFloat (snd best_category)),
                (''all_scores'', PyDict (map (\<lambda>(c, s). (c, PyFloat s)) scores)),
                (''processing_time'', PyFloat (1 / 10))]))"

section \<open>The text-analysis facade (\<open>AzureAIService\<close>)\<close>

record settings =
  DEBUG :: bool
  AZURE_OPENAI_DEPLOYMENT :: string
  JWT_ACCESS_TOKEN_EXPIRE_MINUTES :: nat

text \<open>
  The remote completion backend is an external collaborator: a call of
  \<open>client.chat.completions.create\<close> either raises or returns a response, of which the
  code reads the message contents of the choices and the token usage.
\<close>

record chat_request =
  model :: string
  messages :: "(string \<times> string) list"
  temperature :: real
  max_tokens :: int

record chat_response =
  choices :: "string option list"
  usage :: "int option"

type_synonym chat_client = "chat_request \<Rightarrow> py_exception + chat_response"

text \<open>\<open>json.loads\<close> belongs to the standard library and is a parameter of the model.\<close>

type_synonym json_parser = "string \<Rightarrow> py_exception + pyval"

definition nl :: string where
  "nl = [CHR 0x0A]"

definition dq :: string where
  "dq = [CHR 0x22]"

text \<open>\<open>response.choices[0].message.content\<close>\<close>

definition first_content :: "chat_response \<Rightarrow> py_exception + string option" where
  "first_content response =
     (case choices response of
        [] \<Rightarrow> Inl (PyError ''IndexError'' ''list index out of range'')
      | c # _ \<Rightarrow> Inr c)"

definition str_strip :: "string option \<Rightarrow> py_exception + string" where
  "str_strip content =
     (case content of
        None \<Rightarrow> Inl (PyError ''AttributeError''
                  ''NoneType object has no attribute strip'')
      | Some s \<Rightarrow> Inr (strip s))"

text \<open>\<open>result['processing_time'] = ...\<close> on whatever \<open>json.loads\<close> returned.\<close>

definition set_item :: "pyval \<Rightarrow> string \<Rightarrow> pyval \<Rightarrow> py_exception + pyval" where
  "set_item obj k v =
     (case obj of
        PyDict d \<Rightarrow> Inr (PyDict (dict_set k v d))
      | _ \<Rightarrow> Inl (PyError ''TypeError'' ''object does not support item assignment''))"

definition sentiment_prompt :: "string \<Rightarrow> string" where
  "sentiment_prompt text =
     ''Analyze the sentiment of the following text and respond with a JSON object containing:''
     @ nl @ ''- sentiment: one of '' @ dq @ ''positive'' @ dq @ '', '' @ dq @ ''negative'' @ dq
     @ '', or '' @ dq @ ''neutral'' @ dq
     @ nl @ ''- confidence: a float between 0 and 1''
     @ nl @ ''- scores: an object with scores for positive, negative, and neutral''
     @ nl @ nl @ ''Text: '' @ text
     @ nl @ nl @ ''Respond only with the JSON object, no additional text.''"

text \<open>The body of the \<open>try\<close> block of \<open>analyze_sentiment\<close>: the delegation.\<close>

definition sentiment_delegate ::
  "settings \<Rightarrow> chat_client \<Rightarrow> json_parser \<Rightarrow> real \<Rightarrow> string \<Rightarrow> py_exception + pyval" where
  "sentiment_delegate cfg create json_loads elapsed text =
     bind_exn (create \<lparr>model = AZURE_OPENAI_DEPLOYMENT cfg,
                       messages =
                         [(''system'', ''You are a sentiment analysis AI. Respond only with JSON.''),
                          (''user'', sentiment_prompt text)],
                       temperature = 3 / 10,
                       max_tokens = 200\<rparr>) (\<lambda>response.
     bind_exn (first_content response) (\<lambda>content.
     bind_exn (str_strip content) (\<lambda>result_text.
     bind_exn (json_loads result_text) (\<lambda>result.
     set_item result ''processing_time'' (PyFloat elapsed)))))"

definition analyze_sentiment ::
  "settings \<Rightarrow> chat_client option \<Rightarrow> json_parser \<Rightarrow> real \<Rightarrow> string \<Rightarrow> string
     \<Rightarrow> py_exception + pyval" where
  "analyze_sentiment cfg client json_loads elapsed text language =
     (case client of
        None \<Rightarrow> Inr (PyDict (mock_sentiment_analysis text))
      | Some create \<Rightarrow>
          (case sentiment_delegate cfg create json_loads elapsed text of
             Inr result \<Rightarrow> Inr result
           | Inl e \<Rightarrow> Inr (PyDict (mock_sentiment_analysis text))))"

definition default_categories :: "string list" where
  "default_categories =
     [''Technology'', ''Business'', ''Sports'', ''Entertainment'', ''Politics'', ''Health'']"

text \<open>\<open>', '.join(cats)\<close>\<close>

fun join_comma :: "string list \<Rightarrow> string" where
  "join_comma [] = []"
| "join_comma [c] = c"
| "join_comma (c # d # cs) = c @ '', '' @ join_comma (d # cs)"

definition classify_prompt :: "string list \<Rightarrow> string \<Rightarrow> string" where
  "classify_prompt cats text =
     ''Classify the following text into one of these categories: '' @ join_comma cats
     @ nl @ nl @ ''Text: '' @ text
     @ nl @ nl @ ''Respond with a JSON object containing:''
     @ nl @ ''- category: the best matching category''
     @ nl @ ''- confidence: a float between 0 and 1''
     @ nl @ ''- all_scores: an object with confidence scores for each category''
     @ nl @ nl @ ''Respond only with the JSON object.''"

definition classify_delegate ::
  "settings \<Rightarrow> chat_client \<Rightarrow> json_parser \<Rightarrow> real \<Rightarrow> string \<Rightarrow> string list option
     \<Rightarrow> py_exception + pyval" where
  "classify_delegate cfg create json_loads elapsed text categories =
     (let cats = (case categories of
                    None \<Rightarrow> default_categories
                  | Some cs \<Rightarrow> if cs = [] then default_categories else cs)
      in bind_exn (create \<lparr>model = AZURE_OPENAI_DEPLOYMENT cfg,
                          messages =
                            [(''system'', ''You are a text classification AI. Respond only with JSON.''),
                             (''user'', classify_prompt cats text)],
                          temperature = 3 / 10,
                          max_tokens = 300\<rparr>) (\<lambda>response.
         bind_exn (first_content response) (\<lambda>content.
         bind_exn (str_strip content) (\<lambda>result_text.
         bind_exn (json_loads result_text) (\<lambda>result.
         set_item result ''processing_time'' (PyFloat elapsed))))))"

definition classify_text ::
  "settings \<Rightarrow> chat_client option \<Rightarrow> json_parser \<Rightarrow> real \<Rightarrow> string \<Rightarrow> string list option
     \<Rightarrow> py_exception + pyval" where
  "classify_text cfg client json_loads elapsed text categories =
     (case client of
        None \<Rightarrow> map_sum id PyDict (mock_text_classification text)
      | Some create \<Rightarrow>
          (case classify_delegate cfg create json_loads elapsed text categories of
             Inr result \<Rightarrow> Inr result
           | Inl e \<Rightarrow> map_sum id PyDict (mock_text_classification text)))"

text \<open>The result returned by \<open>chat_completion\<close> when no client is configured.\<close>

definition chat_mock_response :: "real \<Rightarrow> pyval" where
  "chat_mock_response elapsed =
     PyDict [(''response'', PyStr ''Azure OpenAI is not configured. This is a mock response.''),
           (''model'', PyStr ''mock''),
           (''tokens_used'', PyInt 0),
           (''processing_time'', PyFloat elapsed)]"

definition total_tokens :: "chat_response \<Rightarrow> py_exception + int" where
  "total_tokens response =
     (case usage response of
        None \<Rightarrow> Inl (PyError ''AttributeError''
                  ''NoneType object has no attribute total_tokens'')
      | Some n \<Rightarrow> Inr n)"

definition chat_delegate ::
  "settings \<Rightarrow> chat_client \<Rightarrow> real \<Rightarrow> string \<Rightarrow> int \<Rightarrow> real \<Rightarrow> py_exception + pyval" where
  "chat_delegate cfg create elapsed prompt max_toks temp =
     bind_exn (create \<lparr>model = AZURE_OPENAI_DEPLOYMENT cfg,
                       messages = [(''system'', ''You are a helpful AI assistant.''),
                                   (''user'', prompt)],
                       temperature = temp,
                       max_tokens = max_toks\<rparr>) (\<lambda>response.
     bind_exn (first_content response) (\<lambda>content.
     bind_exn (total_tokens response) (\<lambda>tokens.
     Inr (PyDict [(''response'', (case content of None \<Rightarrow> PyNone | Some s \<Rightarrow> PyStr s)),
                (''model'', PyStr (AZURE_OPENAI_DEPLOYMENT cfg)),
                (''tokens_used'', PyInt tokens),
                (''processing_time'', PyFloat elapsed)]))))"

text \<open>The handler of \<open>chat_completion\<close> logs the error and re-raises it.\<close>

definition chat_completion ::
  "settings \<Rightarrow> chat_client option \<Rightarrow> real \<Rightarrow> string \<Rightarrow> int \<Rightarrow> real \<Rightarrow> py_exception + pyval" where
  "chat_completion cfg client elapsed prompt max_toks temp =
     (case client of
        None \<Rightarrow> Inr (chat_mock_response elapsed)
      | Some create \<Rightarrow>
          (case chat_delegate cfg create elapsed prompt max_toks temp of
             Inr result \<Rightarrow> Inr result
           | Inl e \<Rightarrow> Inl e))"

section \<open>The request pipeline (\<open>app/routers/ai_endpoints.py\<close>, \<open>app/main.py\<close>)\<close>

text \<open>\<open>obj[key]\<close> on a value returned by a service.\<close>

definition get_item :: "pyval \<Rightarrow> string \<Rightarrow> py_exception + pyval" where
  "get_item obj k =
     (case obj of
        PyDict d \<Rightarrow>
          (case dict_get d k of
             None \<Rightarrow> Inl (PyError ''KeyError'' ([CHR 0x27] @ k @ [CHR 0x27]))
           | Some v \<Rightarrow> Inr v)
      | _ \<Rightarrow> Inl (PyError ''TypeError'' ''object is not subscriptable''))"

text \<open>
  The arguments of one scheduled \<open>save_request_to_blob\<close> background task: request id,
  endpoint name, request payload, response payload.
\<close>

type_synonym background_task = "string \<times> string \<times> pyval pydict \<times> pyval pydict"

text \<open>
  A response model of pydantic is a parameter: given the keyword arguments it returns
  the validated fields or raises a validation error.
\<close>

type_synonym response_model = "pyval pydict \<Rightarrow> py_exception + pyval pydict"

text \<open>
  Each route is given the outcome of its service call. \<open>log_event_to_insights\<close> swallows
  its own errors and has no part in the response. Whatever the \<open>try\<close> block raises is
  re-raised as a \<open>HTTPException\<close> with status 500 and \<open>detail = str(e)\<close>.
\<close>

definition analyze_sentiment_route ::
  "response_model \<Rightarrow> (py_exception + pyval) \<Rightarrow> string \<Rightarrow> string \<Rightarrow> string
     \<Rightarrow> py_exception + (pyval pydict \<times> background_task list)" where
  "analyze_sentiment_route SentimentAnalysisResponse service_call request_id text language =
     (case
        bind_exn service_call (\<lambda>result.
        bind_exn (get_item result ''sentiment'') (\<lambda>sentiment.
        bind_exn (get_item result ''confidence'') (\<lambda>confidence.
        bind_exn (get_item result ''scores'') (\<lambda>scores.
        bind_exn (get_item result ''processing_time'') (\<lambda>processing_time.
        bind_exn (SentimentAnalysisResponse
                    [(''text'', PyStr text), (''sentiment'', sentiment),
                     (''confidence'', confidence), (''scores'', scores),
                     (''processing_time'', processing_time),
                     (''request_id'', PyStr request_id)]) (\<lambda>response.
        Inr (response,
             [(request_id, ''sentiment_analysis'',
               [(''text'', PyStr text), (''language'', PyStr language)], response)])))))))
      of Inr r \<Rightarrow> Inr r
       | Inl e \<Rightarrow> Inl (HTTPException 500 (str_exc e) []))"

definition classify_text_route ::
  "response_model \<Rightarrow> (py_exception + pyval) \<Rightarrow> string \<Rightarrow> string \<Rightarrow> string list option
     \<Rightarrow> py_exception + (pyval pydict \<times> background_task list)" where
  "classify_text_route TextClassificationResponse service_call request_id text categories =
     (case
        bind_exn service_call (\<lambda>result.
        bind_exn (get_item result ''category'') (\<lambda>category.
        bind_exn (get_item result ''confidence'') (\<lambda>confidence.
        bind_exn (get_item result ''all_scores'') (\<lambda>all_scores.
        bind_exn (get_item result ''processing_time'') (\<lambda>processing_time.
        bind_exn (TextClassificationResponse
                    [(''text'', PyStr text), (''category'', category),
                     (''confidence'', confidence), (''all_scores'', all_scores),
                     (''processing_time'', processing_time),
                     (''request_id'', PyStr request_id)]) (\<lambda>response.
        Inr (response,
             [(request_id, ''text_classification'',
               [(''text'', PyStr text),
                (''categories'', (case categories of
                                    None \<Rightarrow> PyNone
                                  | Some cs \<Rightarrow> PyList (map PyStr cs)))],
               response)])))))))
      of Inr r \<Rightarrow> Inr r
       | Inl e \<Rightarrow> Inl (HTTPException 500 (str_exc e) []))"

definition chat_completion_route ::
  "response_model \<Rightarrow> (py_exception + pyval) \<Rightarrow> string \<Rightarrow> string \<Rightarrow> int \<Rightarrow> real
     \<Rightarrow> py_exception + (pyval pydict \<times> background_task list)" where
  "chat_completion_route OpenAIResponse service_call request_id prompt max_toks temp =
     (case
        bind_exn service_call (\<lambda>result.
        bind_exn (get_item result ''response'') (\<lambda>response_text.
        bind_exn (get_item result ''model'') (\<lambda>model_name.
        bind_exn (get_item result ''tokens_used'') (\<lambda>tokens_used.
        bind_exn (get_item result ''processing_time'') (\<lambda>processing_time.
        bind_exn (OpenAIResponse
                    [(''prompt'', PyStr prompt), (''response'', response_text),
                     (''model'', model_name), (''tokens_used'', tokens_used),
                     (''processing_time'', processing_time),
                     (''request_id'', PyStr request_id)]) (\<lambda>response.
        Inr (response,
             [(request_id, ''chat_completion'',
               [(''prompt'', PyStr prompt), (''max_tokens'', PyInt max_toks),
                (''temperature'', PyFloat temp)],
               response)])))))))
      of Inr r \<Rightarrow> Inr r
       | Inl e \<Rightarrow> Inl (HTTPException 500 (str_exc e) []))"

record http_response =
  status_code :: nat
  headers :: "(string \<times> string) list"
  content :: pyval

definition global_exception_handler :: "settings \<Rightarrow> py_exception \<Rightarrow> http_response" where
  "global_exception_handler cfg exc =
     \<lparr>status_code = 500,
      headers = [],
      content = PyDict [(''error'', PyStr ''Internal server error''),
                        (''detail'', PyStr (if DEBUG cfg then str_exc exc
                                            else ''An error occurred''))]\<rparr>"

text \<open>
  The framework's dispatch of an exception that leaves a route: a \<open>HTTPException\<close> goes to
  FastAPI's own handler, which answers with its status code, its headers and the body
  \<open>{"detail": detail}\<close>; every other exception goes to the handler registered for
  \<open>Exception\<close>.
\<close>

fun handle_exception :: "settings \<Rightarrow> py_exception \<Rightarrow> http_response" where
  "handle_exception cfg (HTTPException status detail hdrs) =
     \<lparr>status_code = status, headers = hdrs, content = PyDict [(''detail'', PyStr detail)]\<rparr>"
| "handle_exception cfg (PyError cls msg) = global_exception_handler cfg (PyError cls msg)"

text \<open>What the caller of an inference endpoint receives.\<close>

definition respond ::
  "settings \<Rightarrow> py_exception + (pyval pydict \<times> background_task list) \<Rightarrow> http_response" where
  "respond cfg outcome =
     (case outcome of
        Inr (response, tasks) \<Rightarrow> \<lparr>status_code = 200, headers = [], content = PyDict response\<rparr>
      | Inl e \<Rightarrow> handle_exception cfg e)"

section \<open>Dates and times\<close>

text \<open>A \<open>datetime\<close> as \<open>datetime.utcnow()\<close> returns it; the clock is a parameter.\<close>

record datetime =
  year :: nat
  month :: nat
  day :: nat
  hour :: nat
  minute :: nat
  second :: nat
  microsecond :: nat

text \<open>\<open>strftime("%Y%m%d")\<close>\<close>

definition strftime_Ymd :: "datetime \<Rightarrow> string" where
  "strftime_Ymd t = pad4 (year t) @ pad2 (month t) @ pad2 (day t)"

definition isoformat :: "datetime \<Rightarrow> string" where
  "isoformat t =
     pad4 (year t) @ ''-'' @ pad2 (month t) @ ''-'' @ pad2 (day t) @ ''T''
     @ pad2 (hour t) @ '':'' @ pad2 (minute t) @ '':'' @ pad2 (second t)
     @ (if microsecond t = 0 then [] else ''.'' @ pad6 (microsecond t))"

section \<open>Authentication (\<open>app/auth/models.py\<close>, \<open>app/auth/dependencies.py\<close>, \<open>app/routers/auth.py\<close>)\<close>

record user_login =
  login_username :: string
  login_password :: string

record user_base =
  username :: string
  email :: string
  full_name :: "string option"

record user_create = user_base +
  password :: string

record user = user_base +
  id' :: string
  is_active :: bool
  created_at :: datetime

text \<open>
  A record of \<open>USERS_DB\<close>: the fields of the \<open>User\<close> view and the password hash. The view
  returned to callers is the record without \<open>hashed_password\<close>.
\<close>

record stored_user = user +
  hashed_password :: string

definition user_view :: "stored_user \<Rightarrow> user" where
  "user_view u =
     \<lparr>username = username u, email = email u, full_name = full_name u,
      id' = id' u, is_active = is_active u, created_at = created_at u\<rparr>"

type_synonym users_db = "stored_user pydict"

record token =
  access_token :: string
  token_type :: string
  expires_in :: nat

text \<open>
  \<open>app/auth/jwt_handler.py\<close> is not among the sources. Its functions are parameters:
  \<open>get_password_hash\<close> (with the salt of this call), \<open>verify_password\<close>,
  \<open>create_access_token\<close> (claims and lifetime in minutes) and \<open>verify_token\<close>, which
  returns the claims of a token or \<open>None\<close>. A claim is a string or \<open>None\<close>.
\<close>

type_synonym claims = "string option pydict"

definition register ::
  "(string \<Rightarrow> string) \<Rightarrow> string \<Rightarrow> datetime \<Rightarrow> users_db \<Rightarrow> user_create
     \<Rightarrow> (py_exception + user) \<times> users_db" where
  "register get_password_hash uuid4 utcnow USERS_DB user_data =
     (if list_ex (\<lambda>u. username u = username user_data) (map snd USERS_DB)
        then (Inl (HTTPException 400 ''Username already registered'' []), USERS_DB)
      else if list_ex (\<lambda>u. email u = email user_data) (map snd USERS_DB)
        then (Inl (HTTPException 400 ''Email already registered'' []), USERS_DB)
      else
        (let user_id = uuid4;
             hashed = get_password_hash (password user_data);
             new_user = \<lparr>username = username user_data,
                         email = email user_data,
                         full_name = full_name user_data,
                         id' = user_id,
                         is_active = True,
                         created_at = utcnow,
                         hashed_password = hashed\<rparr>
         in (Inr (user_view new_user), dict_set user_id new_user USERS_DB)))"

definition login ::
  "settings \<Rightarrow> (string \<Rightarrow> string \<Rightarrow> bool) \<Rightarrow> (claims \<Rightarrow> nat \<Rightarrow> string) \<Rightarrow> users_db
     \<Rightarrow> user_login \<Rightarrow> py_exception + token" where
  "login cfg verify_password create_access_token USERS_DB login_data =
     (let found = find (\<lambda>u. username u = login_username login_data) (map snd USERS_DB)
      in case found of
           None \<Rightarrow>
             Inl (HTTPException 401 ''Incorrect username or password''
                    [(''WWW-Authenticate'', ''Bearer'')])
         | Some u \<Rightarrow>
             if \<not> verify_password (login_password login_data) (hashed_password u)
               then Inl (HTTPException 401 ''Incorrect username or password''
                           [(''WWW-Authenticate'', ''Bearer'')])
             else if \<not> is_active u
               then Inl (HTTPException 400 ''Inactive user'' [])
             else
               Inr \<lparr>access_token =
                      create_access_token
                        [(''sub'', Some (username u)), (''user_id'', Some (id' u)),
                         (''email'', Some (email u)), (''full_name'', full_name u)]
                        (JWT_ACCESS_TOKEN_EXPIRE_MINUTES cfg),
                    token_type = ''bearer'',
                    expires_in = JWT_ACCESS_TOKEN_EXPIRE_MINUTES cfg * 60\<rparr>)"








section \<open>The blob-store facade (\<open>app/services/blob_storage.py\<close>)\<close>

record blob =
  body :: string
  content_type :: string

text \<open>
  The container of the remote store maps blob names to blobs. The service holds a client
  for it, or \<open>None\<close> when storage is not configured. \<open>json.dumps\<close> is a parameter, and so
  is the exception that the storage client raises in this call, if it raises one.
\<close>

type_synonym container = "string \<Rightarrow> blob option"

definition log_blob_name :: "datetime \<Rightarrow> string \<Rightarrow> string" where
  "log_blob_name now request_id = ''logs/'' @ strftime_Ymd now @ ''/'' @ request_id @ ''.json''"

text \<open>
  \<open>save_request_log\<close> reads the clock twice: \<open>now\<close> names the blob, \<open>now'\<close> stamps
  \<open>logged_at\<close>. It returns its boolean result, the container after the call, and the
  dictionary \<open>data\<close> as the call leaves it (the assignment to \<open>data['logged_at']\<close> changes
  the caller's dictionary).
\<close>

definition save_request_log ::
  "(pyval \<Rightarrow> py_exception + string) \<Rightarrow> py_exception option \<Rightarrow> datetime \<Rightarrow> datetime
     \<Rightarrow> container option \<Rightarrow> string \<Rightarrow> pyval pydict
     \<Rightarrow> bool \<times> container option \<times> pyval pydict" where
  "save_request_log json_dumps upload_error now now' client request_id data =
     (case client of
        None \<Rightarrow> (False, None, data)
      | Some blobs \<Rightarrow>
          (let blob_name = log_blob_name now request_id;
               data' = dict_set ''logged_at'' (PyStr (isoformat now')) data
           in case bind_exn (json_dumps (PyDict data')) (\<lambda>text.
                     (case upload_error of
                        Some e \<Rightarrow> Inl e
                      | None \<Rightarrow>
                          Inr (blobs(blob_name \<mapsto>
                                 \<lparr>body = text, content_type = ''application/json''\<rparr>))))
              of Inr blobs' \<Rightarrow> (True, Some blobs', data')
               | Inl e \<Rightarrow> (False, Some blobs, data')))"

section \<open>The image-classification fallback (\<open>app/services/image_classifier.py\<close>)\<close>

text \<open>
  The state of the random generator: the integers and the values of \<open>random()\<close> that it
  will produce next. \<open>random.choice\<close> takes an index below the length of the sequence;
  \<open>random.uniform(a, b)\<close> is \<open>a + (b - a) * random()\<close>.
\<close>

record rng =
  int_draws :: "nat stream"
  unit_draws :: "real stream"

definition classes :: "string list" where
  "classes = [''lying'', ''standing'', ''sitting'']"

definition random_choice :: "string list \<Rightarrow> rng \<Rightarrow> (py_exception + string) \<times> rng" where
  "random_choice seq g =
     (if seq = [] then (Inl (PyError ''IndexError'' ''Cannot choose from an empty sequence''), g)
      else (Inr (seq ! (shd (int_draws g) mod length seq)),
            g\<lparr>int_draws := stl (int_draws g)\<rparr>))"

definition random_uniform :: "real \<Rightarrow> real \<Rightarrow> rng \<Rightarrow> real \<times> rng" where
  "random_uniform a b g =
     (a + (b - a) * shd (unit_draws g), g\<lparr>unit_draws := stl (unit_draws g)\<rparr>)"

text \<open>The loop \<open>for cls in self.classes\<close> that fills \<open>all_scores\<close>.\<close>

fun fill_scores ::
  "string \<Rightarrow> real \<Rightarrow> string list \<Rightarrow> real pydict \<Rightarrow> rng \<Rightarrow> real pydict \<times> rng" where
  "fill_scores pose confidence [] all_scores g = (all_scores, g)"
| "fill_scores pose confidence (cls # rest) all_scores g =
     (if cls = pose
        then fill_scores pose confidence rest (dict_set cls confidence all_scores) g
      else (case random_uniform (5 / 100) (3 / 10) g of
              (x, g') \<Rightarrow> fill_scores pose confidence rest (dict_set cls x all_scores) g'))"

definition mock_classification :: "rng \<Rightarrow> (py_exception + pyval pydict) \<times> rng" where
  "mock_classification g =
     (case random_choice classes g of
        (Inl e, g1) \<Rightarrow> (Inl e, g1)
      | (Inr pose, g1) \<Rightarrow>
          (case random_uniform (7 / 10) (95 / 100) g1 of
             (confidence, g2) \<Rightarrow>
               (case fill_scores pose confidence classes [] g2 of
                  (all_scores, g3) \<Rightarrow>
                    (Inr [(''pose'', PyStr pose),
                          (''confidence'', PyFloat confidence),
                          (''all_scores'', PyDict (map (\<lambda>(c, x). (c, PyFloat x)) all_scores)),
                          (''detections_count'', PyInt 1),
                          (''processing_time'', PyFloat (15 / 100)),
                          (''message'', PyStr ''Using mock classification (model not loaded)'')],
                     g3))))"

text \<open>
  \<open>classify_image\<close>: without a model it returns the fallback. With a model, the body of
  its \<open>try\<close> block (decoding the image, inference, choice of the best detection) is the
  function \<open>run_model\<close>, which returns a result or raises; on an exception the fallback
  is returned.
\<close>

definition classify_image ::
  "(string \<Rightarrow> py_exception + pyval pydict) option \<Rightarrow> string \<Rightarrow> rng
     \<Rightarrow> (py_exception + pyval pydict) \<times> rng" where
  "classify_image run_model image_bytes g =
     (case run_model of
        None \<Rightarrow> mock_classification g
      | Some run \<Rightarrow>
          (case run image_bytes of
             Inr result \<Rightarrow> (Inr result, g)
           | Inl e \<Rightarrow> mock_classification g))"

section \<open>Concrete scenarios\<close>

text \<open>A production configuration (\<open>DEBUG\<close> off) and backends that fail.\<close>

definition production_settings :: settings where
  "production_settings =
     \<lparr>DEBUG = False, AZURE_OPENAI_DEPLOYMENT = ''gpt-35-turbo'',
      JWT_ACCESS_TOKEN_EXPIRE_MINUTES = 30\<rparr>"

definition timing_out_client :: chat_client where
  "timing_out_client request = Inl (PyError ''APITimeoutError'' ''Request timed out.'')"

definition rejecting_client :: chat_client where
  "rejecting_client request =
     Inl (PyError ''BadRequestError'' ''maximum context length exceeded'')"

definition no_json :: json_parser where
  "no_json s = Inl (PyError ''JSONDecodeError'' ''Expecting value'')"

definition accept_all :: response_model where
  "accept_all kwargs = Inr kwargs"

text \<open>A credential store with one user, a hasher and its verifier, and tokens.\<close>

definition example_hash :: "string \<Rightarrow> string" where
  "example_hash p = ''$2b$12$'' @ rev p"

definition example_verify :: "string \<Rightarrow> string \<Rightarrow> bool" where
  "example_verify p h = (h = example_hash p)"

definition noon :: datetime where
  "noon = \<lparr>year = 2024, month = 5, day = 17, hour = 12, minute = 0, second = 0,
            microsecond = 0\<rparr>"

definition evening :: datetime where
  "evening = \<lparr>year = 2024, month = 5, day = 17, hour = 18, minute = 30, second = 5,
               microsecond = 250000\<rparr>"

definition alice :: stored_user where
  "alice = \<lparr>username = ''alice'', email = ''alice@x.com'', full_name = None,
             id' = ''id-1'', is_active = True, created_at = noon,
             hashed_password = example_hash ''secret1''\<rparr>"

definition db_alice :: users_db where
  "db_alice = [(''id-1'', alice)]"

definition example_create_token :: "claims \<Rightarrow> nat \<Rightarrow> string" where
  "example_create_token payload minutes = concat (map (\<lambda>(k, v). k @ ''.'') payload)"


text \<open>A serialiser, a transaction record, and a generator of random numbers.\<close>

definition example_dumps :: "pyval \<Rightarrow> py_exception + string" where
  "example_dumps v =
     (case v of
        PyDict d \<Rightarrow>
          Inr (concat (map (\<lambda>(k, x). k @ ''='' @ (case x of PyStr t \<Rightarrow> t | _ \<Rightarrow> ''?'') @ '';'') d))
      | _ \<Rightarrow> Inl (PyError ''TypeError'' ''not serializable''))"

definition example_record :: "pyval pydict" where
  "example_record =
     [(''request_id'', PyStr ''3f2b8c1e''), (''endpoint'', PyStr ''chat_completion'')]"

definition example_rng :: rng where
  "example_rng = \<lparr>int_draws = sconst 1, unit_draws = sconst (1 / 2)\<rparr>"

section \<open>Properties of the text-analysis facade\<close>

lemma scores_nonempty:
  "fold (\<lambda>(category, words) scores. dict_set category (category_score t words) scores)
     category_keywords [] \<noteq> []"
  by (simp add: category_keywords_def)

lemma mock_text_classification_returns: "\<exists>r. mock_text_classification txt = Inr r"
  unfolding mock_text_classification_def Let_def max_by_value_def bind_exn_def
  using scores_nonempty [of "lower txt"]
  by (auto split: list.splits)

text \<open>
  Claim C1, as the code has it. When the delegation of \<open>analyze_sentiment\<close> or of
  \<open>classify_text\<close> raises an error, whatever its kind, the call returns the fallback
  computed from the input text and raises nothing. When the delegation of
  \<open>chat_completion\<close> raises an error, that same error leaves the call.
\<close>

theorem facade_delegation_error:
  "(sentiment_delegate cfg create json_loads elapsed txt = Inl e \<longrightarrow>
      analyze_sentiment cfg (Some create) json_loads elapsed txt language
        = Inr (PyDict (mock_sentiment_analysis txt)))
   \<and> (classify_delegate cfg create json_loads elapsed txt categories = Inl e \<longrightarrow>
      (\<exists>r. mock_text_classification txt = Inr r
         \<and> classify_text cfg (Some create) json_loads elapsed txt categories = Inr (PyDict r)))
   \<and> (chat_delegate cfg create elapsed prompt max_toks temp = Inl e \<longrightarrow>
      chat_completion cfg (Some create) elapsed prompt max_toks temp = Inl e)"
proof (intro conjI impI)
  assume "sentiment_delegate cfg create json_loads elapsed txt = Inl e"
  then show "analyze_sentiment cfg (Some create) json_loads elapsed txt language
        = Inr (PyDict (mock_sentiment_analysis txt))"
    by (simp add: analyze_sentiment_def)
next
  assume d: "classify_delegate cfg create json_loads elapsed txt categories = Inl e"
  obtain r where r: "mock_text_classification txt = Inr r"
    using mock_text_classification_returns by blast
  with d show "\<exists>r. mock_text_classification txt = Inr r
         \<and> classify_text cfg (Some create) json_loads elapsed txt categories = Inr (PyDict r)"
    by (simp add: classify_text_def)
next
  assume "chat_delegate cfg create elapsed prompt max_toks temp = Inl e"
  then show "chat_completion cfg (Some create) elapsed prompt max_toks temp = Inl e"
    by (simp add: chat_completion_def)
qed

text \<open>
  The backend rejects the input as too long: the two analysis operations fall back,
  the chat operation raises the backend's error.
\<close>

theorem facade_delegation_error_witness:
  "sentiment_delegate production_settings rejecting_client no_json 2 ''I love this product''
     = Inl (PyError ''BadRequestError'' ''maximum context length exceeded'')
   \<and> analyze_sentiment production_settings (Some rejecting_client) no_json 2
        ''I love this product'' ''en''
     = Inr (PyDict (mock_sentiment_analysis ''I love this product''))
   \<and> classify_delegate production_settings rejecting_client no_json 2 ''I love this product'' None
     = Inl (PyError ''BadRequestError'' ''maximum context length exceeded'')
   \<and> (\<exists>r. mock_text_classification ''I love this product'' = Inr r
         \<and> classify_text production_settings (Some rejecting_client) no_json 2
              ''I love this product'' None = Inr (PyDict r))
   \<and> chat_delegate production_settings rejecting_client 2 ''I love this product'' 150 (7 / 10)
     = Inl (PyError ''BadRequestError'' ''maximum context length exceeded'')
   \<and> chat_completion production_settings (Some rejecting_client) 2 ''I love this product'' 150
        (7 / 10)
     = Inl (PyError ''BadRequestError'' ''maximum context length exceeded'')"
proof -
  let ?e = "PyError ''BadRequestError'' ''maximum context length exceeded''"
  let ?t = "''I love this product''"
  note inst = facade_delegation_error [of production_settings rejecting_client no_json 2 "?t" "?e"
      "''en''" None "?t" 150 "7 / 10"]
  have h1: "sentiment_delegate production_settings rejecting_client no_json 2 ?t = Inl ?e"
    by (simp add: sentiment_delegate_def rejecting_client_def bind_exn_def)
  have h2: "classify_delegate production_settings rejecting_client no_json 2 ?t None = Inl ?e"
    by (simp add: classify_delegate_def rejecting_client_def bind_exn_def)
  have h3: "chat_delegate production_settings rejecting_client 2 ?t 150 (7 / 10) = Inl ?e"
    by (simp add: chat_delegate_def rejecting_client_def bind_exn_def)
  from inst h1 h2 h3 show ?thesis by blast
qed

text \<open>
  Claim C1, as stated, fails for \<open>chat_completion\<close>: with a configured client whose call
  times out, the timeout error is the outcome of the call, not a fallback result.
\<close>

theorem chat_completion_propagates_counterexample:
  "chat_completion production_settings (Some timing_out_client) 2 ''What is cloud computing?''
     100 (7 / 10)
   = Inl (PyError ''APITimeoutError'' ''Request timed out.'')"
  by (simp add: chat_completion_def chat_delegate_def timing_out_client_def bind_exn_def)

text \<open>
  Claim C2 says that the three scores of the sentiment fallback lie in the interval from
  0 to 1. On a text with eight positive and three negative keywords the neutral score
  is \<open>1 - 0.8 - 0.3\<close>, which is negative.
\<close>

theorem fallback_neutral_score_negative:
  "dict_get (mock_sentiment_analysis
       ''good great excellent amazing wonderful fantastic love happy bad terrible awful'')
     ''scores''
   = Some (PyDict [(''positive'', PyFloat 1), (''negative'', PyFloat (3 / 10)),
                   (''neutral'', PyFloat (- (1 / 10)))])"
  by code_simp

text \<open>
  What does hold of the scores of the sentiment fallback: the positive and the negative
  score lie between 0 and 1, the neutral score between -0.6 and 1.
\<close>

lemma count_hits_le: "count_hits words t \<le> length words"
  by (simp add: count_hits_def)

lemma mock_sentiment_scores_bounds:
  "\<exists>s c p n u.
     mock_sentiment_analysis txt
       = [(''sentiment'', PyStr s), (''confidence'', PyFloat c),
          (''scores'', PyDict [(''positive'', PyFloat p), (''negative'', PyFloat n),
                               (''neutral'', PyFloat u)]),
          (''processing_time'', PyFloat (1 / 10))]
     \<and> 0 \<le> p \<and> p \<le> 1 \<and> 0 \<le> n \<and> n \<le> 1 \<and> - (6 / 10) \<le> u \<and> u \<le> 1"
proof -
  define P where "P = real (count_hits positive_words (lower txt)) / 10"
  define N where "N = real (count_hits negative_words (lower txt)) / 10"
  have "count_hits positive_words (lower txt) \<le> 8"
    using count_hits_le [of positive_words "lower txt"] by (simp add: positive_words_def)
  then have p: "0 \<le> P \<and> P \<le> 8 / 10"
    by (simp add: P_def)
  have "count_hits negative_words (lower txt) \<le> 8"
    using count_hits_le [of negative_words "lower txt"] by (simp add: negative_words_def)
  then have n: "0 \<le> N \<and> N \<le> 8 / 10"
    by (simp add: N_def)
  consider "P > N" | "N > P" | "P = N" by linarith
  then show ?thesis
  proof cases
    case 1
    then have "mock_sentiment_analysis txt
       = [(''sentiment'', PyStr ''positive''), (''confidence'', PyFloat (min (5 / 10 + P) (95 / 100))),
          (''scores'', PyDict [(''positive'', PyFloat (min (P + 3 / 10) 1)), (''negative'', PyFloat N),
                               (''neutral'', PyFloat (1 - P - N))]),
          (''processing_time'', PyFloat (1 / 10))]"
      unfolding mock_sentiment_analysis_def Let_def P_def [symmetric] N_def [symmetric]
      by simp
    moreover have "0 \<le> min (P + 3 / 10) 1 \<and> min (P + 3 / 10) 1 \<le> 1 \<and> 0 \<le> N \<and> N \<le> 1
        \<and> - (6 / 10) \<le> 1 - P - N \<and> 1 - P - N \<le> 1"
      using p n by auto
    ultimately show ?thesis by blast
  next
    case 2
    then have "mock_sentiment_analysis txt
       = [(''sentiment'', PyStr ''negative''), (''confidence'', PyFloat (min (5 / 10 + N) (95 / 100))),
          (''scores'', PyDict [(''positive'', PyFloat P), (''negative'', PyFloat (min (N + 3 / 10) 1)),
                               (''neutral'', PyFloat (1 - P - N))]),
          (''processing_time'', PyFloat (1 / 10))]"
      unfolding mock_sentiment_analysis_def Let_def P_def [symmetric] N_def [symmetric]
      by simp
    moreover have "0 \<le> P \<and> P \<le> 1 \<and> 0 \<le> min (N + 3 / 10) 1 \<and> min (N + 3 / 10) 1 \<le> 1
        \<and> - (6 / 10) \<le> 1 - P - N \<and> 1 - P - N \<le> 1"
      using p n by auto
    ultimately show ?thesis by blast
  next
    case 3
    then have "mock_sentiment_analysis txt
       = [(''sentiment'', PyStr ''neutral''), (''confidence'', PyFloat (6 / 10)),
          (''scores'', PyDict [(''positive'', PyFloat P), (''negative'', PyFloat N),
                               (''neutral'', PyFloat (1 - P - N))]),
          (''processing_time'', PyFloat (1 / 10))]"
      unfolding mock_sentiment_analysis_def Let_def P_def [symmetric] N_def [symmetric]
      by simp
    moreover have "0 \<le> P \<and> P \<le> 1 \<and> 0 \<le> N \<and> N \<le> 1
        \<and> - (6 / 10) \<le> 1 - P - N \<and> 1 - P - N \<le> 1"
      using p n by auto
    ultimately show ?thesis by blast
  qed
qed

text \<open>
  Claim C7: with no client configured, the result of \<open>analyze_sentiment\<close> and of
  \<open>classify_text\<close> is the fallback computed from the input text alone. Two calls on the
  same text return the same result, whatever the settings, the parser, the clock, the
  language and the categories of each call.
\<close>

theorem text_fallback_deterministic:
  "analyze_sentiment cfg None json_loads elapsed txt language
     = Inr (PyDict (mock_sentiment_analysis txt))
   \<and> analyze_sentiment cfg' None json_loads' elapsed' txt language'
     = analyze_sentiment cfg None json_loads elapsed txt language
   \<and> classify_text cfg None json_loads elapsed txt categories
     = map_sum id PyDict (mock_text_classification txt)
   \<and> classify_text cfg' None json_loads' elapsed' txt categories'
     = classify_text cfg None json_loads elapsed txt categories"
  by (simp add: analyze_sentiment_def classify_text_def)

section \<open>Properties of the request pipeline\<close>

text \<open>
  An error of the service call leaves each route as a \<open>HTTPException\<close> with status 500,
  and the caller receives \<open>str(e)\<close> as the detail, whatever \<open>DEBUG\<close> is.
\<close>

lemma route_error_detail:
  "respond cfg (analyze_sentiment_route R (Inl e) request_id txt language)
     = \<lparr>status_code = 500, headers = [], content = PyDict [(''detail'', PyStr (str_exc e))]\<rparr>"
  "respond cfg (classify_text_route R (Inl e) request_id txt categories)
     = \<lparr>status_code = 500, headers = [], content = PyDict [(''detail'', PyStr (str_exc e))]\<rparr>"
  "respond cfg (chat_completion_route R (Inl e) request_id prompt max_toks temp)
     = \<lparr>status_code = 500, headers = [], content = PyDict [(''detail'', PyStr (str_exc e))]\<rparr>"
  by (simp_all add: respond_def analyze_sentiment_route_def classify_text_route_def
      chat_completion_route_def bind_exn_def)

text \<open>
  An exception that no route wraps reaches \<open>global_exception_handler\<close>, which shows the
  message only when \<open>DEBUG\<close> is set.
\<close>

lemma global_handler_redacts:
  "handle_exception cfg (PyError cls msg)
     = \<lparr>status_code = 500, headers = [],
        content = PyDict [(''error'', PyStr ''Internal server error''),
                          (''detail'', PyStr (if DEBUG cfg then msg else ''An error occurred''))]\<rparr>"
  by (simp add: global_exception_handler_def)

text \<open>
  Claim C3 says that the message of a pipeline error reaches the caller only in a debug
  configuration. With \<open>DEBUG\<close> off, a chat request whose backend call times out is
  answered with status 500 and the backend's message as the detail.
\<close>

theorem pipeline_error_detail_not_redacted:
  "\<not> DEBUG production_settings
   \<and> respond production_settings
       (chat_completion_route accept_all
          (chat_completion production_settings (Some timing_out_client) 2
             ''What is cloud computing?'' 100 (7 / 10))
          ''3f2b8c1e'' ''What is cloud computing?'' 100 (7 / 10))
     = \<lparr>status_code = 500, headers = [],
        content = PyDict [(''detail'', PyStr ''Request timed out.'')]\<rparr>"
  by (simp add: respond_def chat_completion_route_def chat_completion_def chat_delegate_def
      timing_out_client_def bind_exn_def production_settings_def)

section \<open>Properties of registration, login and identification\<close>


lemma dict_set_twice: "dict_set k v (dict_set k w d) = dict_set k v d"
  by (induction d) auto









text \<open>
  Claim C10: when both the username and the email are taken, the failure is the one for
  the username; and whenever \<open>register\<close> fails, the store is as it was.
\<close>

theorem register_failure_precedence:
  "((\<exists>u \<in> set (map snd db). username u = username user_data)
      \<and> (\<exists>u \<in> set (map snd db). email u = email user_data) \<longrightarrow>
      fst (register h uid now db user_data)
        = Inl (HTTPException 400 ''Username already registered'' []))
   \<and> (\<forall>e. fst (register h uid now db user_data) = Inl e \<longrightarrow>
        snd (register h uid now db user_data) = db)"
  by (simp add: register_def list_ex_iff Let_def)

text \<open>
  A request with the username and the email of \<open>alice\<close>.
\<close>

theorem register_failure_precedence_witness:
  "(\<exists>u \<in> set (map snd db_alice). username u = ''alice'')
   \<and> (\<exists>u \<in> set (map snd db_alice). email u = ''alice@x.com'')
   \<and> fst (register example_hash ''id-2'' evening db_alice
        \<lparr>username = ''alice'', email = ''alice@x.com'', full_name = None,
         password = ''secret2''\<rparr>)
       = Inl (HTTPException 400 ''Username already registered'' [])
   \<and> snd (register example_hash ''id-2'' evening db_alice
        \<lparr>username = ''alice'', email = ''alice@x.com'', full_name = None,
         password = ''secret2''\<rparr>) = db_alice"
proof -
  let ?r = "\<lparr>username = ''alice'', email = ''alice@x.com'', full_name = None,
         password = ''secret2''\<rparr>"
  have a: "(\<exists>u \<in> set (map snd db_alice). username u = username ?r)
      \<and> (\<exists>u \<in> set (map snd db_alice). email u = email ?r)"
    by (simp add: db_alice_def alice_def)
  note inst = register_failure_precedence [of db_alice ?r example_hash "''id-2''" evening]
  note c = mp [OF conjunct1 [OF inst] a]
  note d = mp [OF spec [OF conjunct2 [OF inst]] c]
  from a c d show ?thesis by simp
qed

text \<open>
  Claim C4: a login with a username that no stored user has, and a login with a stored
  username and a password that fails verification against that user's hash, fail with
  the same exception: status 401, detail "Incorrect username or password", and the same
  headers.
\<close>

theorem login_failures_indistinguishable:
  assumes "\<forall>u \<in> set (map snd db). username u \<noteq> login_username unknown"
      and "find (\<lambda>u. username u = login_username wrong) (map snd db) = Some u"
      and "\<not> verify_password (login_password wrong) (hashed_password u)"
  shows "login cfg verify_password create_access_token db unknown
           = login cfg verify_password create_access_token db wrong
         \<and> login cfg verify_password create_access_token db wrong
           = Inl (HTTPException 401 ''Incorrect username or password''
                    [(''WWW-Authenticate'', ''Bearer'')])"
proof -
  have "find (\<lambda>u. username u = login_username unknown) (map snd db) = None"
    using assms(1) by (simp add: find_None_iff)
  then show ?thesis
    using assms(2,3) by (simp add: login_def)
qed

text \<open>
  An unknown username, and the username of \<open>alice\<close> with a wrong password.
\<close>

theorem login_failures_indistinguishable_witness:
  "\<not> (\<exists>u \<in> set (map snd db_alice). username u = ''mallory'')
   \<and> find (\<lambda>u. username u = ''alice'') (map snd db_alice) = Some alice
   \<and> \<not> example_verify ''guess'' (hashed_password alice)
   \<and> login production_settings example_verify example_create_token db_alice
        \<lparr>login_username = ''mallory'', login_password = ''guess''\<rparr>
       = login production_settings example_verify example_create_token db_alice
           \<lparr>login_username = ''alice'', login_password = ''guess''\<rparr>
   \<and> login production_settings example_verify example_create_token db_alice
        \<lparr>login_username = ''alice'', login_password = ''guess''\<rparr>
       = Inl (HTTPException 401 ''Incorrect username or password''
                [(''WWW-Authenticate'', ''Bearer'')])"
proof -
  let ?a = "\<lparr>login_username = ''mallory'', login_password = ''guess''\<rparr>"
  let ?b = "\<lparr>login_username = ''alice'', login_password = ''guess''\<rparr>"
  have h1: "\<forall>u \<in> set (map snd db_alice). username u \<noteq> login_username ?a"
    by (simp add: db_alice_def alice_def)
  have h2: "find (\<lambda>u. username u = login_username ?b) (map snd db_alice) = Some alice"
    by (simp add: db_alice_def alice_def)
  have h3: "\<not> example_verify (login_password ?b) (hashed_password alice)"
    by (simp add: example_verify_def example_hash_def alice_def)
  note c = login_failures_indistinguishable [of db_alice ?a ?b alice example_verify
      production_settings example_create_token, OF h1 h2 h3]
  from h1 h2 h3 c show ?thesis by simp
qed



section \<open>Properties of the blob-store facade\<close>

text \<open>
  Claim C8: the blob name is \<open>logs/YYYYMMDD/request_id.json\<close>, a function of the request
  id and the date. After a write of a record and a second, successful write of the same
  record on the same date, the container is the one that the second write alone
  produces: the first blob is overwritten, and \<open>logged_at\<close> in it is the second stamp.
  This holds whether the second call receives the dictionary as the first call left it
  or a fresh copy of the record.
\<close>

theorem save_request_log_last_write_wins:
  assumes same_date: "year t1 = year t2 \<and> month t1 = month t2 \<and> day t1 = day t2"
      and dumps: "json_dumps (PyDict (dict_set ''logged_at'' (PyStr (isoformat t2')) data))
                    = Inr text2"
      and first: "save_request_log json_dumps err1 t1 t1' client rid data = (ok1, client1, data1)"
  shows "log_blob_name t1 rid
           = ''logs/'' @ pad4 (year t1) @ pad2 (month t1) @ pad2 (day t1) @ ''/'' @ rid @ ''.json''
         \<and> log_blob_name t2 rid = log_blob_name t1 rid
         \<and> fst (snd (save_request_log json_dumps None t2 t2' client1 rid data1))
             = fst (snd (save_request_log json_dumps None t2 t2' client rid data))
         \<and> fst (snd (save_request_log json_dumps None t2 t2' client1 rid data))
             = fst (snd (save_request_log json_dumps None t2 t2' client rid data))
         \<and> (\<forall>blobs. client = Some blobs \<longrightarrow>
               fst (snd (save_request_log json_dumps None t2 t2' client1 rid data1))
                 = Some (blobs(log_blob_name t1 rid \<mapsto>
                           \<lparr>body = text2, content_type = ''application/json''\<rparr>)))"
proof -
  have name: "log_blob_name t2 rid = log_blob_name t1 rid"
    using same_date by (simp add: log_blob_name_def strftime_Ymd_def)
  show ?thesis
  proof (cases client)
    case None
    with first show ?thesis
      by (auto simp add: save_request_log_def log_blob_name_def strftime_Ymd_def same_date)
  next
    case (Some blobs)
    from first Some have d1: "data1 = dict_set ''logged_at'' (PyStr (isoformat t1')) data"
      by (auto simp add: save_request_log_def Let_def split: sum.splits)
    from first Some have c1: "client1 = Some blobs
        \<or> (\<exists>b. client1 = Some (blobs(log_blob_name t1 rid \<mapsto> b)))"
      by (auto simp add: save_request_log_def Let_def bind_exn_def
          split: sum.splits option.splits)
    from c1 show ?thesis
      using Some dumps name d1
      by (auto simp add: save_request_log_def Let_def bind_exn_def dict_set_twice
          log_blob_name_def strftime_Ymd_def)
  qed
qed

text \<open>
  A record written at noon and again in the evening of the same day, into an empty
  container.
\<close>

theorem save_request_log_last_write_wins_witness:
  "year noon = year evening \<and> month noon = month evening \<and> day noon = day evening
   \<and> example_dumps (PyDict (dict_set ''logged_at'' (PyStr (isoformat evening)) example_record))
       = Inr (''request_id=3f2b8c1e;endpoint=chat_completion;logged_at='' @ isoformat evening
              @ '';'')
   \<and> save_request_log example_dumps None noon noon (Some Map.empty) ''3f2b8c1e'' example_record
       = (True,
          Some [log_blob_name noon ''3f2b8c1e'' \<mapsto>
                  \<lparr>body = ''request_id=3f2b8c1e;endpoint=chat_completion;logged_at=''
                            @ isoformat noon @ '';'',
                   content_type = ''application/json''\<rparr>],
          dict_set ''logged_at'' (PyStr (isoformat noon)) example_record)
   \<and> log_blob_name noon ''3f2b8c1e'' = ''logs/20240517/3f2b8c1e.json''
   \<and> log_blob_name evening ''3f2b8c1e'' = log_blob_name noon ''3f2b8c1e''
   \<and> fst (snd (save_request_log example_dumps None evening evening
         (Some [log_blob_name noon ''3f2b8c1e'' \<mapsto>
                  \<lparr>body = ''request_id=3f2b8c1e;endpoint=chat_completion;logged_at=''
                            @ isoformat noon @ '';'',
                   content_type = ''application/json''\<rparr>])
         ''3f2b8c1e'' (dict_set ''logged_at'' (PyStr (isoformat noon)) example_record)))
       = Some [log_blob_name noon ''3f2b8c1e'' \<mapsto>
                  \<lparr>body = ''request_id=3f2b8c1e;endpoint=chat_completion;logged_at=''
                            @ isoformat evening @ '';'',
                   content_type = ''application/json''\<rparr>]"
proof -
  let ?b1 = "\<lparr>body = ''request_id=3f2b8c1e;endpoint=chat_completion;logged_at=''
                            @ isoformat noon @ '';'',
                   content_type = ''application/json''\<rparr>"
  let ?t2 = "''request_id=3f2b8c1e;endpoint=chat_completion;logged_at='' @ isoformat evening
              @ '';''"
  let ?c1 = "Some [log_blob_name noon ''3f2b8c1e'' \<mapsto> ?b1]"
  let ?d1 = "dict_set ''logged_at'' (PyStr (isoformat noon)) example_record"
  have h1: "year noon = year evening \<and> month noon = month evening \<and> day noon = day evening"
    by (simp add: noon_def evening_def)
  have h2: "example_dumps (PyDict (dict_set ''logged_at'' (PyStr (isoformat evening))
              example_record)) = Inr ?t2"
    by (simp add: example_dumps_def example_record_def)
  have h3: "save_request_log example_dumps None noon noon (Some Map.empty) ''3f2b8c1e''
              example_record = (True, ?c1, ?d1)"
    by (simp add: save_request_log_def example_dumps_def example_record_def bind_exn_def)
  note inst = save_request_log_last_write_wins [of noon evening example_dumps evening
      example_record ?t2 None noon "Some Map.empty" "''3f2b8c1e''" True ?c1 ?d1, OF h1 h2 h3]
  have n: "log_blob_name noon ''3f2b8c1e'' = ''logs/20240517/3f2b8c1e.json''"
    using conjunct1 [OF inst] by (simp add: noon_def pad4_def pad3_def pad2_def digit_char_def)
  note same = conjunct1 [OF conjunct2 [OF inst]]
  note last = mp [OF spec [OF conjunct2 [OF conjunct2 [OF conjunct2 [OF conjunct2 [OF inst]]]]]
      refl]
  from h1 h2 h3 n same last show ?thesis by simp
qed

section \<open>Properties of the image-classification fallback\<close>

lemma uniform_bounds:
  fixes a b u :: real
  assumes "0 \<le> u" and "u < 1" and "a \<le> b"
  shows "a \<le> a + (b - a) * u \<and> a + (b - a) * u \<le> b"
proof
  have "0 \<le> (b - a) * u" using assms by simp
  then show "a \<le> a + (b - a) * u" by simp
  have "(b - a) * u \<le> (b - a) * 1"
    using assms by (intro mult_left_mono) auto
  then show "a + (b - a) * u \<le> b" by simp
qed

lemma random_choice_classes:
  "\<exists>pose \<in> set classes.
     random_choice classes g = (Inr pose, g\<lparr>int_draws := stl (int_draws g)\<rparr>)"
proof -
  have "shd (int_draws g) mod length classes < length classes"
    by (simp add: classes_def)
  then have "classes ! (shd (int_draws g) mod length classes) \<in> set classes"
    by (rule nth_mem)
  moreover have "classes \<noteq> []" by (simp add: classes_def)
  ultimately show ?thesis by (simp add: random_choice_def)
qed

lemma fill_scores_lying:
  "fill_scores ''lying'' c classes [] g
     = ([(''lying'', c),
         (''standing'', 5 / 100 + (3 / 10 - 5 / 100) * shd (unit_draws g)),
         (''sitting'', 5 / 100 + (3 / 10 - 5 / 100) * shd (stl (unit_draws g)))],
        g\<lparr>unit_draws := stl (stl (unit_draws g))\<rparr>)"
  by (simp add: classes_def random_uniform_def)

lemma fill_scores_standing:
  "fill_scores ''standing'' c classes [] g
     = ([(''lying'', 5 / 100 + (3 / 10 - 5 / 100) * shd (unit_draws g)),
         (''standing'', c),
         (''sitting'', 5 / 100 + (3 / 10 - 5 / 100) * shd (stl (unit_draws g)))],
        g\<lparr>unit_draws := stl (stl (unit_draws g))\<rparr>)"
  by (simp add: classes_def random_uniform_def)

lemma fill_scores_sitting:
  "fill_scores ''sitting'' c classes [] g
     = ([(''lying'', 5 / 100 + (3 / 10 - 5 / 100) * shd (unit_draws g)),
         (''standing'', 5 / 100 + (3 / 10 - 5 / 100) * shd (stl (unit_draws g))),
         (''sitting'', c)],
        g\<lparr>unit_draws := stl (stl (unit_draws g))\<rparr>)"
  by (simp add: classes_def random_uniform_def)

text \<open>
  Claim C9: whatever the generator draws (values of \<open>random()\<close> lie in the interval from 0
  to 1), the fallback returns one of the three poses, a confidence between 0.7 and 0.95
  stored as the score of that pose, and scores between 0.05 and 0.3 for the other two
  classes.
\<close>

theorem mock_classification_ranges:
  assumes draws: "\<forall>u \<in> sset (unit_draws g). 0 \<le> u \<and> u < 1"
  shows "\<exists>pose confidence all_scores g'.
           mock_classification g
             = (Inr [(''pose'', PyStr pose),
                     (''confidence'', PyFloat confidence),
                     (''all_scores'', PyDict (map (\<lambda>(c, x). (c, PyFloat x)) all_scores)),
                     (''detections_count'', PyInt 1),
                     (''processing_time'', PyFloat (15 / 100)),
                     (''message'', PyStr ''Using mock classification (model not loaded)'')], g')
           \<and> pose \<in> {''lying'', ''standing'', ''sitting''}
           \<and> 7 / 10 \<le> confidence \<and> confidence \<le> 95 / 100
           \<and> map fst all_scores = [''lying'', ''standing'', ''sitting'']
           \<and> dict_get all_scores pose = Some confidence
           \<and> (\<forall>cls \<in> {''lying'', ''standing'', ''sitting''}. cls \<noteq> pose \<longrightarrow>
                 (\<exists>x. dict_get all_scores cls = Some x \<and> 5 / 100 \<le> x \<and> x \<le> 3 / 10))"
proof -
  let ?u = "unit_draws g"
  let ?c = "7 / 10 + (95 / 100 - 7 / 10) * shd ?u"
  let ?x = "5 / 100 + (3 / 10 - 5 / 100) * shd (stl ?u)"
  let ?y = "5 / 100 + (3 / 10 - 5 / 100) * shd (stl (stl ?u))"
  have m0: "shd ?u \<in> sset ?u" by (simp add: shd_sset)
  have m1: "shd (stl ?u) \<in> sset ?u" by (meson shd_sset stl_sset)
  have m2: "shd (stl (stl ?u)) \<in> sset ?u" by (meson shd_sset stl_sset)
  have b0: "7 / 10 \<le> ?c \<and> ?c \<le> 95 / 100"
    using draws m0 by (intro uniform_bounds) auto
  have b1: "5 / 100 \<le> ?x \<and> ?x \<le> 3 / 10"
    using draws m1 by (intro uniform_bounds) auto
  have b2: "5 / 100 \<le> ?y \<and> ?y \<le> 3 / 10"
    using draws m2 by (intro uniform_bounds) auto
  obtain pose where pose: "pose \<in> set classes"
    and choice: "random_choice classes g = (Inr pose, g\<lparr>int_draws := stl (int_draws g)\<rparr>)"
    using random_choice_classes by blast
  let ?g' = "g\<lparr>int_draws := stl (int_draws g), unit_draws := stl (stl (stl ?u))\<rparr>"
  let ?result = "\<lambda>all_scores.
        (Inr [(''pose'', PyStr pose),
              (''confidence'', PyFloat ?c),
              (''all_scores'', PyDict (map (\<lambda>(c, x). (c, PyFloat x)) all_scores)),
              (''detections_count'', PyInt 1),
              (''processing_time'', PyFloat (15 / 100)),
              (''message'', PyStr ''Using mock classification (model not loaded)'')], ?g')"
  from pose consider "pose = ''lying''" | "pose = ''standing''" | "pose = ''sitting''"
    by (auto simp add: classes_def)
  then show ?thesis
  proof cases
    case 1
    have "mock_classification g
            = ?result [(''lying'', ?c), (''standing'', ?x), (''sitting'', ?y)]"
      by (simp add: mock_classification_def choice random_uniform_def 1 fill_scores_lying)
    then show ?thesis
      apply (intro exI [of _ pose] exI [of _ ?c]
          exI [of _ "[(''lying'', ?c), (''standing'', ?x), (''sitting'', ?y)]"] exI [of _ ?g'])
      using b0 b1 b2 1 by (simp add: dict_get_def)
  next
    case 2
    have "mock_classification g
            = ?result [(''lying'', ?x), (''standing'', ?c), (''sitting'', ?y)]"
      by (simp add: mock_classification_def choice random_uniform_def 2 fill_scores_standing)
    then show ?thesis
      apply (intro exI [of _ pose] exI [of _ ?c]
          exI [of _ "[(''lying'', ?x), (''standing'', ?c), (''sitting'', ?y)]"] exI [of _ ?g'])
      using b0 b1 b2 2 by (simp add: dict_get_def)
  next
    case 3
    have "mock_classification g
            = ?result [(''lying'', ?x), (''standing'', ?y), (''sitting'', ?c)]"
      by (simp add: mock_classification_def choice random_uniform_def 3 fill_scores_sitting)
    then show ?thesis
      apply (intro exI [of _ pose] exI [of _ ?c]
          exI [of _ "[(''lying'', ?x), (''standing'', ?y), (''sitting'', ?c)]"] exI [of _ ?g'])
      using b0 b1 b2 3 by (simp add: dict_get_def)
  qed
qed

text \<open>
  A generator whose next index is 1 and whose values of \<open>random()\<close> are all 0.5.
\<close>

theorem mock_classification_ranges_witness:
  "sset (unit_draws example_rng) = {1 / 2}
   \<and> (\<exists>pose confidence all_scores g'.
           mock_classification example_rng
             = (Inr [(''pose'', PyStr pose),
                     (''confidence'', PyFloat confidence),
                     (''all_scores'', PyDict (map (\<lambda>(c, x). (c, PyFloat x)) all_scores)),
                     (''detections_count'', PyInt 1),
                     (''processing_time'', PyFloat (15 / 100)),
                     (''message'', PyStr ''Using mock classification (model not loaded)'')], g')
           \<and> pose \<in> {''lying'', ''standing'', ''sitting''}
           \<and> 7 / 10 \<le> confidence \<and> confidence \<le> 95 / 100
           \<and> map fst all_scores = [''lying'', ''standing'', ''sitting'']
           \<and> dict_get all_scores pose = Some confidence
           \<and> (\<forall>cls \<in> {''lying'', ''standing'', ''sitting''}. cls \<noteq> pose \<longrightarrow>
                 (\<exists>x. dict_get all_scores cls = Some x \<and> 5 / 100 \<le> x \<and> x \<le> 3 / 10)))
   \<and> fst (mock_classification example_rng)
       = Inr [(''pose'', PyStr ''standing''),
              (''confidence'', PyFloat (33 / 40)),
              (''all_scores'', PyDict [(''lying'', PyFloat (7 / 40)),
                                       (''standing'', PyFloat (33 / 40)),
                                       (''sitting'', PyFloat (7 / 40))]),
              (''detections_count'', PyInt 1),
              (''processing_time'', PyFloat (15 / 100)),
              (''message'', PyStr ''Using mock classification (model not loaded)'')]"
proof -
  have h: "\<forall>u \<in> sset (unit_draws example_rng). 0 \<le> u \<and> u < 1"
    by (simp add: example_rng_def)
  note c = mock_classification_ranges [of example_rng, OF h]
  have v: "fst (mock_classification example_rng)
       = Inr [(''pose'', PyStr ''standing''),
              (''confidence'', PyFloat (33 / 40)),
              (''all_scores'', PyDict [(''lying'', PyFloat (7 / 40)),
                                       (''standing'', PyFloat (33 / 40)),
                                       (''sitting'', PyFloat (7 / 40))]),
              (''detections_count'', PyInt 1),
              (''processing_time'', PyFloat (15 / 100)),
              (''message'', PyStr ''Using mock classification (model not loaded)'')]"
    by (simp add: mock_classification_def random_choice_def random_uniform_def classes_def
        example_rng_def)
  have d: "sset (unit_draws example_rng) = {1 / 2}"
    by (simp add: example_rng_def)
  from d c v show ?thesis by (intro conjI)
qed

end
